theory Spec2Isabelle
  imports Main "HOL-Library.Word"
begin

section \<open>The file manager middleware of filemanager.go\<close>

text \<open>
  A shallow embedding of \<^verbatim>\<open>src/filemanager.go\<close>: the directory-listing handler that
  answers a request for a directory with a sorted, optionally limited listing, as JSON or
  through a template, and hands every other request to the next handler of the chain.

  Go strings are byte sequences and are modelled as \<^typ>\<open>string\<close>; Go's \<^verbatim>\<open>int\<close> is modelled
  as \<^typ>\<open>int\<close> (the counters of the file count slice elements and cannot overflow), the
  \<^verbatim>\<open>int64\<close> size and the \<^verbatim>\<open>uint32\<close> file mode as words. A \<^verbatim>\<open>time.Time\<close> is modelled by its
  instant, an \<^typ>\<open>int\<close>; \<^verbatim>\<open>UTC()\<close> changes the location of a time and not its instant.
\<close>

subsection \<open>Errors and status codes\<close>

text \<open>
  The errors the handler sees come from the file system, from the query parameters and
  from the two renderers. \<^verbatim>\<open>os.IsPermission\<close> and \<^verbatim>\<open>os.IsExist\<close> classify them.
\<close>

datatype error = ErrPermission | ErrExist | ErrNotExist | ErrInvalid string | ErrOther string

definition os_IsPermission :: "error \<Rightarrow> bool" where
  "os_IsPermission err = (err = ErrPermission)"

definition os_IsExist :: "error \<Rightarrow> bool" where
  "os_IsExist err = (err = ErrExist)"

definition StatusOK :: int where "StatusOK = 200"
definition StatusTemporaryRedirect :: int where "StatusTemporaryRedirect = 307"
definition StatusBadRequest :: int where "StatusBadRequest = 400"
definition StatusForbidden :: int where "StatusForbidden = 403"
definition StatusNotFound :: int where "StatusNotFound = 404"
definition StatusGone :: int where "StatusGone = 410"
definition StatusInternalServerError :: int where "StatusInternalServerError = 500"
definition StatusNotImplemented :: int where "StatusNotImplemented = 501"

subsection \<open>The functions of package strings that the file calls\<close>

text \<open>
  \<^verbatim>\<open>strings.Split(s, sep)\<close> for a separator of one byte, which is how the file calls it:
  the pieces of \<open>s\<close> between the occurrences of \<open>sep\<close>, one more piece than occurrences.
  The result is never empty, so the first branch of the inner case is never taken.
\<close>

fun strings_Split :: "string \<Rightarrow> char \<Rightarrow> string list" where
  "strings_Split [] sep = [[]]"
| "strings_Split (c # cs) sep =
     (if c = sep then [] # strings_Split cs sep
      else (case strings_Split cs sep of
              [] \<Rightarrow> [[c]]
            | p # ps \<Rightarrow> (c # p) # ps))"

fun strings_Join :: "string list \<Rightarrow> string \<Rightarrow> string" where
  "strings_Join [] sep = []"
| "strings_Join [a] sep = a"
| "strings_Join (a # b # rest) sep = a @ sep @ strings_Join (b # rest) sep"

definition strings_HasPrefix :: "string \<Rightarrow> string \<Rightarrow> bool" where
  "strings_HasPrefix s pre = (length pre \<le> length s \<and> take (length pre) s = pre)"

definition strings_HasSuffix :: "string \<Rightarrow> string \<Rightarrow> bool" where
  "strings_HasSuffix s suf =
     (length suf \<le> length s \<and> drop (length s - length suf) s = suf)"

definition strings_TrimSuffix :: "string \<Rightarrow> string \<Rightarrow> string" where
  "strings_TrimSuffix s suf =
     (if strings_HasSuffix s suf then take (length s - length suf) s else s)"

fun strings_Contains :: "string \<Rightarrow> string \<Rightarrow> bool" where
  "strings_Contains [] sub = (sub = [])"
| "strings_Contains (c # cs) sub =
     (strings_HasPrefix (c # cs) sub \<or> strings_Contains cs sub)"

subsection \<open>Data model\<close>

text \<open>
  \<^verbatim>\<open>os.FileInfo\<close> is an interface; the handler calls its methods \<^verbatim>\<open>Name\<close>, \<^verbatim>\<open>Size\<close>,
  \<^verbatim>\<open>Mode\<close>, \<^verbatim>\<open>ModTime\<close> and \<^verbatim>\<open>IsDir\<close>. A raw directory entry is the record of their results.
\<close>

record os_FileInfo =
  os_Name :: string
  os_Size :: "64 word"
  os_Mode :: "32 word"
  os_ModTime :: int
  os_IsDir :: bool

record FileInfo =
  IsDir :: bool
  Name :: string
  Size :: "64 word"
  URL :: string
  ModTime :: int
  Mode :: "32 word"

text \<open>
  An \<^verbatim>\<open>http.File\<close>, as far as the handler uses it: the results of \<^verbatim>\<open>Stat()\<close> and of
  \<^verbatim>\<open>Readdir(-1)\<close>. \<^verbatim>\<open>Close\<close> has no result the handler reads.
\<close>

record http_File =
  Stat :: "error + os_FileInfo"
  Readdir :: "error + os_FileInfo list"

type_synonym http_FileSystem = "string \<Rightarrow> error + http_File"

text \<open>
  The request: its method, \<^verbatim>\<open>r.URL.Path\<close>, the query values of \<^verbatim>\<open>r.URL\<close> (absent keys are
  \<open>None\<close>) and its header (\<^verbatim>\<open>r.Header[k]\<close> is the empty slice for an absent key).
\<close>

record Request =
  Method :: string
  URL_Path :: string
  URL_Query :: "string \<Rightarrow> string option"
  Header :: "string \<Rightarrow> string list"

text \<open>
  \<^verbatim>\<open>httpserver.Context\<close> as \<^verbatim>\<open>ServeListing\<close> fills it: the root and the request (its \<^verbatim>\<open>URL\<close>
  field is the request's own \<^verbatim>\<open>URL\<close>).
\<close>

record Context =
  Root :: http_FileSystem
  Req :: Request

text \<open>
  The listing. \<^verbatim>\<open>User\<close> is an \<^verbatim>\<open>interface{}\<close> and the embedded context a struct of
  pointers; both are absent (\<open>None\<close>) in the value \<^verbatim>\<open>directoryListing\<close> returns.
\<close>

record 'u Listing =
  Name :: string
  Path :: string
  CanGoUp :: bool
  Items :: "FileInfo list"
  NumDirs :: int
  NumFiles :: int
  Sort :: string
  Order :: string
  ItemsLimitedTo :: int
  User :: "'u option"
  Context :: "Context option"

record 'u Config =
  PathScope :: string
  Root :: http_FileSystem
  Variables :: 'u
  Template :: "'u Listing \<Rightarrow> error + string"

text \<open>
  The field \<^verbatim>\<open>Next\<close> of \<^verbatim>\<open>FileManager\<close> is the next handler of the chain; a call of it is the
  outcome \<open>Next\<close> of the handler below.
\<close>

record 'u FileManager =
  Configs :: "'u Config list"
  IgnoreIndexes :: bool

text \<open>
  What the handler calls in other packages, taken as parameters:
  \<^verbatim>\<open>staticfiles.IndexPages\<close>, \<^verbatim>\<open>httpserver.Path(p).Matches(scope)\<close>, the string of a
  \<^verbatim>\<open>url.URL\<close> that has only a \<^verbatim>\<open>Path\<close>, \<^verbatim>\<open>json.Marshal\<close> on the items, \<^verbatim>\<open>path.Base\<close>,
  \<^verbatim>\<open>path.Dir\<close> and the Unicode-aware \<^verbatim>\<open>strings.ToLower\<close>.
\<close>

record extern =
  IndexPages :: "string list"
  Path_Matches :: "string \<Rightarrow> string \<Rightarrow> bool"
  URL_String :: "string \<Rightarrow> string"
  json_Marshal :: "FileInfo list \<Rightarrow> error + string"
  path_Base :: "string \<Rightarrow> string"
  path_Dir :: "string \<Rightarrow> string"
  strings_ToLower :: "string \<Rightarrow> string"

subsection \<open>BreadcrumbMap\<close>

text \<open>
  The loop \<^verbatim>\<open>for i, part := range parts\<close>, with the map \<^verbatim>\<open>result\<close> as its state. An
  assignment to a key that is already there replaces its value.
\<close>

function breadcrumbLoop ::
  "string list \<Rightarrow> nat \<Rightarrow> (string \<rightharpoonup> string) \<Rightarrow> (string \<rightharpoonup> string)" where
  "breadcrumbLoop parts i result =
     (if i < length parts then
        (let part = parts ! i in
         if i = 0 \<and> part = [] then
           breadcrumbLoop parts (i + 1) (result(''/'' \<mapsto> ''/''))
         else
           breadcrumbLoop parts (i + 1)
             (result(strings_Join (take (i + 1) parts) ''/'' \<mapsto> part)))
      else result)"
  by pat_completeness auto
termination
  by (relation "measure (\<lambda>(parts, i, result). length parts - i)") auto

declare breadcrumbLoop.simps [simp del]

definition BreadcrumbMap :: "('u, 'more) Listing_scheme \<Rightarrow> (string \<rightharpoonup> string)" where
  "BreadcrumbMap l =
     (if length (Path l) = 0 then Map.empty
      else
        (let lpath = Path l;
             lpath = (if lpath ! (length lpath - 1) = CHR ''/''
                      then take (length lpath - 1) lpath else lpath);
             parts = strings_Split lpath CHR ''/''
         in breadcrumbLoop parts 0 Map.empty))"

text \<open>
  The breadcrumb map in the words of the specification (section 4.2), to compare with the
  loop: strip one trailing separator if there is one, split on the separator, and emit for
  every index \<open>i\<close> one entry: the root entry \<open>/ \<mapsto> /\<close> for index 0 with an empty segment,
  else the segments \<open>0..i\<close> joined by the separator, mapped to segment \<open>i\<close>. The entries go
  into the map in the order of the indices, a later entry replacing an earlier one with
  the same key. The empty path gives the empty map.
\<close>

definition breadcrumb_entry :: "string list \<Rightarrow> nat \<Rightarrow> string \<times> string" where
  "breadcrumb_entry segs i =
     (if i = 0 \<and> segs ! i = [] then (''/'', ''/'')
      else (strings_Join (take (i + 1) segs) ''/'', segs ! i))"

definition breadcrumb_spec :: "string \<Rightarrow> (string \<rightharpoonup> string)" where
  "breadcrumb_spec p =
     (if p = [] then Map.empty
      else
        (let stripped = (if last p = CHR ''/'' then butlast p else p);
             segs = strings_Split stripped CHR ''/''
         in map_of (rev (map (breadcrumb_entry segs) [0..<length segs]))))"

subsection \<open>directoryListing\<close>

text \<open>
  The inner loop over \<^verbatim>\<open>staticfiles.IndexPages\<close>: it sets the flag at the first equal name and
  breaks, and leaves the flag as it was otherwise.
\<close>

fun indexLoop :: "string \<Rightarrow> string list \<Rightarrow> bool \<Rightarrow> bool" where
  "indexLoop name [] hasIndexFile = hasIndexFile"
| "indexLoop name (indexName # rest) hasIndexFile =
     (if name = indexName then True else indexLoop name rest hasIndexFile)"

text \<open>The variables of the outer loop.\<close>

record dl_vars =
  fileinfos :: "FileInfo list"
  dirCount :: int
  fileCount :: int
  hasIndexFile :: bool

fun filesLoop :: "extern \<Rightarrow> os_FileInfo list \<Rightarrow> dl_vars \<Rightarrow> dl_vars" where
  "filesLoop x [] v = v"
| "filesLoop x (f # files) v =
     (let name = os_Name f;
          hasIndex = indexLoop name (IndexPages x) (hasIndexFile v);
          name' = (if os_IsDir f then name @ ''/'' else name);
          dirCount' = (if os_IsDir f then dirCount v + 1 else dirCount v);
          fileCount' = (if os_IsDir f then fileCount v else fileCount v + 1);
          url = URL_String x (''./'' @ name')
      in filesLoop x files
           \<lparr>fileinfos = fileinfos v @
              [\<lparr>IsDir = os_IsDir f, FileInfo.Name = os_Name f, Size = os_Size f,
                URL = url, ModTime = os_ModTime f, Mode = os_Mode f\<rparr>],
            dirCount = dirCount', fileCount = fileCount', hasIndexFile = hasIndex\<rparr>)"

definition directoryListing ::
  "extern \<Rightarrow> os_FileInfo list \<Rightarrow> bool \<Rightarrow> string \<Rightarrow> 'u Listing \<times> bool" where
  "directoryListing x files canGoUp urlPath =
     (let v = filesLoop x files
                \<lparr>fileinfos = [], dirCount = 0, fileCount = 0, hasIndexFile = False\<rparr>
      in (\<lparr>Listing.Name = path_Base x urlPath, Path = urlPath, CanGoUp = canGoUp,
           Items = fileinfos v, NumDirs = dirCount v, NumFiles = fileCount v,
           Sort = [], Order = [], ItemsLimitedTo = 0, User = None, Context = None\<rparr>,
          hasIndexFile v))"

subsection \<open>The sort, order and limit parameters\<close>

text \<open>
  \<^verbatim>\<open>ServeListing\<close> calls \<^verbatim>\<open>handleSortOrder\<close> and \<^verbatim>\<open>applySort\<close>, which are functions of
  the package that are not in \<^verbatim>\<open>filemanager.go\<close>. They and their parts are written after
  section 4.4 of the specification.
\<close>

text \<open>
  Modelled from the spec: the store of sort preferences that \<^verbatim>\<open>handleSortOrder\<close> reads and
  writes; for every scope, the last sort, order and limit that a request supplied, where
  one is recorded.
\<close>

record pref =
  saved_sort :: "string option"
  saved_order :: "string option"
  saved_limit :: "int option"

type_synonym prefs = "string \<Rightarrow> pref"

text \<open>
  Modelled from the spec: the parsing of the limit, a decimal integer with an optional sign
  and one or more digits.
\<close>

definition digit_val :: "char \<Rightarrow> nat option" where
  "digit_val c =
     (let n = (of_char c :: nat) in if 48 \<le> n \<and> n \<le> 57 then Some (n - 48) else None)"

fun parse_digits :: "string \<Rightarrow> nat \<Rightarrow> nat option" where
  "parse_digits [] acc = Some acc"
| "parse_digits (c # cs) acc =
     (case digit_val c of None \<Rightarrow> None | Some d \<Rightarrow> parse_digits cs (10 * acc + d))"

definition parse_nat :: "string \<Rightarrow> nat option" where
  "parse_nat s = (if s = [] then None else parse_digits s 0)"

definition parse_int :: "string \<Rightarrow> int option" where
  "parse_int s =
     (case s of
        [] \<Rightarrow> None
      | c # cs \<Rightarrow>
          if c = CHR ''-'' then map_option (\<lambda>n. - int n) (parse_nat cs)
          else if c = CHR ''+'' then map_option int (parse_nat cs)
          else map_option int (parse_nat s))"

text \<open>
  Modelled from the spec: the value of each parameter. A missing parameter takes the
  recorded preference, else the default; a value that is present must be a recognized one.
\<close>

definition resolveSort :: "string option \<Rightarrow> string option \<Rightarrow> error + string" where
  "resolveSort q saved =
     (case q of
        None \<Rightarrow> Inr (case saved of None \<Rightarrow> ''name'' | Some s \<Rightarrow> s)
      | Some s \<Rightarrow>
          if s = ''name'' \<or> s = ''size'' \<or> s = ''time'' then Inr s
          else Inl (ErrInvalid s))"

definition resolveOrder :: "string option \<Rightarrow> string option \<Rightarrow> error + string" where
  "resolveOrder q saved =
     (case q of
        None \<Rightarrow> Inr (case saved of None \<Rightarrow> ''asc'' | Some s \<Rightarrow> s)
      | Some s \<Rightarrow>
          if s = ''asc'' \<or> s = ''desc'' then Inr s else Inl (ErrInvalid s))"

definition resolveLimit :: "string option \<Rightarrow> int option \<Rightarrow> error + int" where
  "resolveLimit q saved =
     (case q of
        None \<Rightarrow> Inr (case saved of None \<Rightarrow> 0 | Some n \<Rightarrow> n)
      | Some s \<Rightarrow>
          (case parse_int s of
             None \<Rightarrow> Inl (ErrInvalid s)
           | Some n \<Rightarrow> if n < 0 then Inl (ErrInvalid s) else Inr n))"

definition record_pref :: "'q option \<Rightarrow> 'a \<Rightarrow> 'a option \<Rightarrow> 'a option" where
  "record_pref q v saved = (case q of None \<Rightarrow> saved | Some _ \<Rightarrow> Some v)"

text \<open>
  Modelled from the spec: \<^verbatim>\<open>handleSortOrder\<close>, which \<^verbatim>\<open>ServeListing\<close> calls and which is not
  in \<^verbatim>\<open>filemanager.go\<close>. After section 4.4 of the specification: \<open>sort\<close> is one of name,
  size, time and \<open>order\<close> one of asc, desc, any other value is an error; \<open>limit\<close> must parse
  as a non-negative integer; a missing parameter falls back to the preference recorded for
  the scope, else to name, asc and no limit (0); the parameters a request supplies are
  recorded for the scope. The preference store stands for the response writer and the
  request state the function is called with; a rejected request leaves it as it was.
\<close>

definition handleSortOrder ::
  "prefs \<Rightarrow> Request \<Rightarrow> string \<Rightarrow> error + (string \<times> string \<times> int \<times> prefs)" where
  "handleSortOrder store r scope =
     (let p = store scope;
          qs = URL_Query r ''sort'';
          qo = URL_Query r ''order'';
          ql = URL_Query r ''limit''
      in case resolveSort qs (saved_sort p) of
           Inl err \<Rightarrow> Inl err
         | Inr sort' \<Rightarrow>
            (case resolveOrder qo (saved_order p) of
               Inl err \<Rightarrow> Inl err
             | Inr order' \<Rightarrow>
                (case resolveLimit ql (saved_limit p) of
                   Inl err \<Rightarrow> Inl err
                 | Inr limit \<Rightarrow>
                     Inr (sort', order', limit,
                          store(scope :=
                            \<lparr>saved_sort = record_pref qs sort' (saved_sort p),
                             saved_order = record_pref qo order' (saved_order p),
                             saved_limit = record_pref ql limit (saved_limit p)\<rparr>)))))"

text \<open>
  For the statement of the validation: the texts that are decimal integers, and the
  requests that carry a sort outside name, size, time, an order outside asc, desc, or a
  limit that is not a decimal integer or is negative.
\<close>

definition digits :: "string \<Rightarrow> bool" where
  "digits s = (s \<noteq> [] \<and> list_all (\<lambda>c. digit_val c \<noteq> None) s)"

definition numeric :: "string \<Rightarrow> bool" where
  "numeric s =
     (case s of
        [] \<Rightarrow> False
      | c # cs \<Rightarrow> if c = CHR ''-'' \<or> c = CHR ''+'' then digits cs else digits s)"

definition bad_query :: "Request \<Rightarrow> bool" where
  "bad_query r =
     ((case URL_Query r ''sort'' of
         None \<Rightarrow> False
       | Some s \<Rightarrow> s \<noteq> ''name'' \<and> s \<noteq> ''size'' \<and> s \<noteq> ''time'') \<or>
      (case URL_Query r ''order'' of
         None \<Rightarrow> False
       | Some s \<Rightarrow> s \<noteq> ''asc'' \<and> s \<noteq> ''desc'') \<or>
      (case URL_Query r ''limit'' of
         None \<Rightarrow> False
       | Some s \<Rightarrow> \<not> numeric s \<or> (case parse_int s of None \<Rightarrow> False | Some n \<Rightarrow> n < 0)))"

text \<open>
  Modelled from the spec: the comparison of two items on the chosen key (names lower-cased
  and compared bytewise, sizes as signed numbers, times as instants) and a stable
  insertion sort for a comparison.
\<close>

fun string_less :: "string \<Rightarrow> string \<Rightarrow> bool" where
  "string_less [] [] = False"
| "string_less [] (b # bs) = True"
| "string_less (a # as) [] = False"
| "string_less (a # as) (b # bs) =
     (if (of_char a :: nat) < of_char b then True
      else if (of_char b :: nat) < of_char a then False
      else string_less as bs)"

definition lessBy :: "extern \<Rightarrow> string \<Rightarrow> FileInfo \<Rightarrow> FileInfo \<Rightarrow> bool" where
  "lessBy x key a b =
     (if key = ''name'' then
        string_less (strings_ToLower x (FileInfo.Name a)) (strings_ToLower x (FileInfo.Name b))
      else if key = ''size'' then sint (Size a) < sint (Size b)
      else ModTime a < ModTime b)"

fun insertBy :: "('a \<Rightarrow> 'a \<Rightarrow> bool) \<Rightarrow> 'a \<Rightarrow> 'a list \<Rightarrow> 'a list" where
  "insertBy lt a [] = [a]"
| "insertBy lt a (b # bs) =
     (if lt b a then b # insertBy lt a bs else a # b # bs)"

definition stableSort :: "('a \<Rightarrow> 'a \<Rightarrow> bool) \<Rightarrow> 'a list \<Rightarrow> 'a list" where
  "stableSort lt as = foldr (insertBy lt) as []"

text \<open>
  Modelled from the spec: \<^verbatim>\<open>applySort\<close>, a method of the listing that is not in
  \<^verbatim>\<open>filemanager.go\<close>. After section 4.4: a stable sort of the items on the chosen key
  only, names compared without case, sizes as numbers, times as instants; \<open>desc\<close> swaps
  the arguments of the comparison. Values of \<open>Sort\<close> and \<open>Order\<close> that the validation
  does not let through leave the items as they are.
\<close>

definition applySort :: "extern \<Rightarrow> 'u Listing \<Rightarrow> 'u Listing" where
  "applySort x l =
     (if Sort l = ''name'' \<or> Sort l = ''size'' \<or> Sort l = ''time'' then
        if Order l = ''asc'' then
          l\<lparr>Items := stableSort (lessBy x (Sort l)) (Items l)\<rparr>
        else if Order l = ''desc'' then
          l\<lparr>Items := stableSort (\<lambda>a b. lessBy x (Sort l) b a) (Items l)\<rparr>
        else l
      else l)"

subsection \<open>The response and the outcome of a handler\<close>

text \<open>
  The response writer, as far as the handler writes to it: the header (\<^verbatim>\<open>Set\<close> replaces the
  values of a key by one value), the bytes of the body, and the target and code of a call of
  \<^verbatim>\<open>http.Redirect\<close>, from which the standard library writes the \<^verbatim>\<open>Location\<close> header and
  the status line.
\<close>

record ResponseWriter =
  header :: "string \<rightharpoonup> string list"
  body :: string
  redirect :: "(string \<times> int) option"

definition Header_Set :: "ResponseWriter \<Rightarrow> string \<Rightarrow> string \<Rightarrow> ResponseWriter" where
  "Header_Set w k v = w\<lparr>header := (header w)(k \<mapsto> [v])\<rparr>"

definition WriteTo :: "string \<Rightarrow> ResponseWriter \<Rightarrow> ResponseWriter" where
  "WriteTo buf w = w\<lparr>body := body w @ buf\<rparr>"

definition http_Redirect :: "ResponseWriter \<Rightarrow> string \<Rightarrow> int \<Rightarrow> ResponseWriter" where
  "http_Redirect w url code = w\<lparr>redirect := Some (url, code)\<rparr>"

text \<open>
  A handler returns a status and an error, having written to the response writer, or it
  returns what the next handler returns: \<^verbatim>\<open>return f.Next.ServeHTTP(w, r)\<close> is \<open>Next\<close>.
\<close>

datatype result = Next | Return int "error option" ResponseWriter

subsection \<open>loadDirectoryContents\<close>

fun canGoUpLoop :: "string \<Rightarrow> 'u Config list \<Rightarrow> bool" where
  "canGoUpLoop curPathDir [] = False"
| "canGoUpLoop curPathDir (other # rest) =
     (if strings_HasPrefix curPathDir (PathScope other) then True
      else canGoUpLoop curPathDir rest)"

definition loadDirectoryContents ::
  "extern \<Rightarrow> 'u FileManager \<Rightarrow> http_File \<Rightarrow> string \<Rightarrow> error + ('u Listing \<times> bool)" where
  "loadDirectoryContents x f requestedFilepath urlPath =
     (case Readdir requestedFilepath of
        Inl err \<Rightarrow> Inl err
      | Inr files \<Rightarrow>
          (let curPathDir = path_Dir x (strings_TrimSuffix urlPath ''/'');
               canGoUp = canGoUpLoop curPathDir (Configs f)
           in Inr (directoryListing x files canGoUp urlPath)))"

subsection \<open>ServeListing\<close>

definition formatAsJSON :: "extern \<Rightarrow> 'u Listing \<Rightarrow> 'u Config \<Rightarrow> error + string" where
  "formatAsJSON x listing bc =
     (case json_Marshal x (Items listing) of
        Inl err \<Rightarrow> Inl err
      | Inr marsh \<Rightarrow> Inr marsh)"

definition formatAsHTML :: "'u Listing \<Rightarrow> 'u Config \<Rightarrow> error + string" where
  "formatAsHTML listing bc = Template bc listing"

text \<open>
  The limit step of \<^verbatim>\<open>ServeListing\<close>:
  \<^verbatim>\<open>if limit > 0 && limit <= len(listing.Items) { ... }\<close>.
\<close>

definition limitItems :: "int \<Rightarrow> 'u Listing \<Rightarrow> 'u Listing" where
  "limitItems limit listing =
     (if limit > 0 \<and> limit \<le> int (length (Items listing)) then
        listing\<lparr>Items := take (nat limit) (Items listing), ItemsLimitedTo := limit\<rparr>
      else listing)"

text \<open>
  The listing that is rendered: the context and the user variables filled in, the sort and
  the order stored, the items sorted and then limited.
\<close>

definition prepareListing ::
  "extern \<Rightarrow> Request \<Rightarrow> 'u Config \<Rightarrow> string \<Rightarrow> string \<Rightarrow> int \<Rightarrow> 'u Listing \<Rightarrow> 'u Listing" where
  "prepareListing x r bc sort' order' limit listing =
     limitItems limit
       (applySort x
          (listing\<lparr>Context := Some \<lparr>Context.Root = Config.Root bc, Req = r\<rparr>,
                   User := Some (Variables bc),
                   Sort := sort', Order := order'\<rparr>))"

definition render ::
  "extern \<Rightarrow> ResponseWriter \<Rightarrow> Request \<Rightarrow> 'u Config \<Rightarrow> 'u Listing \<Rightarrow> result" where
  "render x w r bc listing =
     (let acceptHeader = strings_ToLower x (strings_Join (Header r ''Accept'') '','') in
      if strings_Contains acceptHeader ''application/json'' then
        (case formatAsJSON x listing bc of
           Inl err \<Rightarrow> Return StatusInternalServerError (Some err) w
         | Inr buf \<Rightarrow>
             Return StatusOK None
               (WriteTo buf (Header_Set w ''Content-Type'' ''application/json; charset=utf-8'')))
      else
        (case formatAsHTML listing bc of
           Inl err \<Rightarrow> Return StatusInternalServerError (Some err) w
         | Inr buf \<Rightarrow>
             Return StatusOK None
               (WriteTo buf (Header_Set w ''Content-Type'' ''text/html; charset=utf-8''))))"

definition ServeListing ::
  "extern \<Rightarrow> 'u FileManager \<Rightarrow> prefs \<Rightarrow> ResponseWriter \<Rightarrow> Request \<Rightarrow> http_File \<Rightarrow>
   'u Config \<Rightarrow> result \<times> prefs" where
  "ServeListing x f store w r requestedFilepath bc =
     (case loadDirectoryContents x f requestedFilepath (URL_Path r) of
        Inl err \<Rightarrow>
          (if os_IsPermission err then (Return StatusForbidden (Some err) w, store)
           else if os_IsExist err then (Return StatusGone (Some err) w, store)
           else (Return StatusInternalServerError (Some err) w, store))
      | Inr (listing, containsIndex) \<Rightarrow>
          if containsIndex \<and> \<not> IgnoreIndexes f then (Next, store)
          else
            (case handleSortOrder store r (PathScope bc) of
               Inl err \<Rightarrow> (Return StatusBadRequest (Some err) w, store)
             | Inr (sort', order', limit, store') \<Rightarrow>
                 (render x w r bc (prepareListing x r bc sort' order' limit listing),
                  store')))"

subsection \<open>ServeHTTP\<close>

fun matchConfig :: "extern \<Rightarrow> string \<Rightarrow> 'u Config list \<Rightarrow> 'u Config option" where
  "matchConfig x p [] = None"
| "matchConfig x p (c # cs) =
     (if Path_Matches x p (PathScope c) then Some c else matchConfig x p cs)"

definition ServeHTTP ::
  "extern \<Rightarrow> 'u FileManager \<Rightarrow> prefs \<Rightarrow> ResponseWriter \<Rightarrow> Request \<Rightarrow> result \<times> prefs" where
  "ServeHTTP x f store w r =
     (case matchConfig x (URL_Path r) (Configs f) of
        None \<Rightarrow> (Next, store)
      | Some bc \<Rightarrow>
          (case Config.Root bc (URL_Path r) of
             Inl err \<Rightarrow>
               (if os_IsPermission err then (Return StatusForbidden (Some err) w, store)
                else if os_IsExist err then (Return StatusNotFound (Some err) w, store)
                else (Next, store))
           | Inr requestedFilepath \<Rightarrow>
               (case Stat requestedFilepath of
                  Inl err \<Rightarrow>
                    (if os_IsPermission err then (Return StatusForbidden (Some err) w, store)
                     else if os_IsExist err then (Return StatusGone (Some err) w, store)
                     else (Next, store))
                | Inr info \<Rightarrow>
                    if \<not> os_IsDir info then (Next, store)
                    else if Method r = ''GET'' \<or> Method r = ''HEAD'' then
                      (if \<not> strings_HasSuffix (URL_Path r) ''/'' then
                         (Return 0 None
                            (http_Redirect w (URL_Path r @ ''/'') StatusTemporaryRedirect),
                          store)
                       else ServeListing x f store w r requestedFilepath bc)
                    else if Method r = ''PROPFIND'' \<or> Method r = ''OPTIONS'' then
                      (Return StatusNotImplemented None w, store)
                    else (Next, store))))"

text \<open>
  The file manager with other results of the listing work: every directory of every root
  enumerates to \<open>rd\<close> and every scope renders with \<open>t\<close>.
\<close>

definition replaceListing ::
  "(error + os_FileInfo list) \<Rightarrow> ('u Listing \<Rightarrow> error + string) \<Rightarrow> 'u FileManager \<Rightarrow>
   'u FileManager" where
  "replaceListing rd t f =
     f\<lparr>Configs :=
         map (\<lambda>c. c\<lparr>Config.Root :=
                       (\<lambda>p. case Config.Root c p of
                               Inl err \<Rightarrow> Inl err
                             | Inr file \<Rightarrow> Inr (file\<lparr>Readdir := rd\<rparr>)),
                     Template := t\<rparr>)
           (Configs f)\<rparr>"

subsection \<open>The entry that the loop of directoryListing appends\<close>

definition entryInfo :: "extern \<Rightarrow> os_FileInfo \<Rightarrow> FileInfo" where
  "entryInfo x f =
     \<lparr>IsDir = os_IsDir f, FileInfo.Name = os_Name f, Size = os_Size f,
      URL = URL_String x (''./'' @ (if os_IsDir f then os_Name f @ ''/'' else os_Name f)),
      ModTime = os_ModTime f, Mode = os_Mode f\<rparr>"

subsection \<open>An instance of the parameters\<close>

text \<open>
  Concrete functions for the parameters, used to run the handler on concrete requests.
  They follow the Go libraries on the inputs used here: lower-casing of ASCII letters; the
  escaping of a URL path (letters, digits and \<^verbatim>\<open>-_.~$&+,/:;=@\<close> are kept, every other byte
  becomes \<^verbatim>\<open>%XX\<close>) and the \<^verbatim>\<open>./\<close> that \<^verbatim>\<open>URL.String\<close> puts before a first segment with a
  colon; \<^verbatim>\<open>path.Base\<close>; \<^verbatim>\<open>path.Dir\<close> on paths without dot segments and doubled slashes;
  a prefix test for the scope; the index pages of the static file server. The serializer
  writes three fields of every item and \<^verbatim>\<open>null\<close> for the nil slice.
\<close>

definition ascii_lower :: "char \<Rightarrow> char" where
  "ascii_lower c =
     (case map_of (zip ''ABCDEFGHIJKLMNOPQRSTUVWXYZ'' ''abcdefghijklmnopqrstuvwxyz'') c of
        None \<Rightarrow> c
      | Some d \<Rightarrow> d)"

definition hex_digit :: "nat \<Rightarrow> char" where
  "hex_digit n = ''0123456789ABCDEF'' ! (n mod 16)"

definition shouldEscape :: "char \<Rightarrow> bool" where
  "shouldEscape c =
     (let n = (of_char c :: nat) in
      \<not> ((97 \<le> n \<and> n \<le> 122) \<or> (65 \<le> n \<and> n \<le> 90) \<or> (48 \<le> n \<and> n \<le> 57)
         \<or> c \<in> set ''-_.~$&+,/:;=@''))"

definition escape_path :: "string \<Rightarrow> string" where
  "escape_path s =
     concat (map (\<lambda>c. if shouldEscape c
                        then [CHR ''%'', hex_digit (of_char c div 16), hex_digit (of_char c)]
                        else [c]) s)"

definition url_String :: "string \<Rightarrow> string" where
  "url_String p =
     (let e = (if p = ''*'' then ''*'' else escape_path p);
          segment = takeWhile (\<lambda>c. c \<noteq> CHR ''/'') e
      in (if CHR '':'' \<in> set segment then ''./'' else []) @ e)"

definition trimSlashes :: "string \<Rightarrow> string" where
  "trimSlashes p = rev (dropWhile (\<lambda>c. c = CHR ''/'') (rev p))"

definition base_of :: "string \<Rightarrow> string" where
  "base_of p =
     (if p = [] then ''.''
      else (let q = rev (takeWhile (\<lambda>c. c \<noteq> CHR ''/'') (rev (trimSlashes p)))
            in if q = [] then ''/'' else q))"

definition dir_of :: "string \<Rightarrow> string" where
  "dir_of p =
     (let d = rev (dropWhile (\<lambda>c. c \<noteq> CHR ''/'') (rev p))
      in if d = [] then ''.'' else if trimSlashes d = [] then ''/'' else trimSlashes d)"

definition marshal_item :: "FileInfo \<Rightarrow> string" where
  "marshal_item fi =
     ''{\"IsDir\":'' @ (if IsDir fi then ''true'' else ''false'') @
     '',\"Name\":\"'' @ FileInfo.Name fi @ ''\",\"URL\":\"'' @ URL fi @ ''\"}''"

definition marshal_items :: "FileInfo list \<Rightarrow> error + string" where
  "marshal_items items =
     (if items = [] then Inr ''null''
      else Inr (''['' @ strings_Join (map marshal_item items) '','' @ '']''))"

definition sample_extern :: extern where
  "sample_extern =
     \<lparr>IndexPages = [''index.html'', ''index.htm'', ''index.txt'',
                    ''default.html'', ''default.htm'', ''default.txt''],
      Path_Matches = strings_HasPrefix,
      URL_String = url_String,
      json_Marshal = marshal_items,
      path_Base = base_of,
      path_Dir = dir_of,
      strings_ToLower = map ascii_lower\<rparr>"


text \<open>A directory of five entries, two of them directories, and the same with an index page.\<close>

definition entry :: "string \<Rightarrow> bool \<Rightarrow> nat \<Rightarrow> int \<Rightarrow> os_FileInfo" where
  "entry n d sz t =
     \<lparr>os_Name = n, os_Size = of_nat sz, os_Mode = (if d then 0x800001ED else 0x1A4),
      os_ModTime = t, os_IsDir = d\<rparr>"

definition sample_files :: "os_FileInfo list" where
  "sample_files =
     [entry ''a.txt'' False 10 300, entry ''B'' True 4096 100, entry ''c d.txt'' False 5 200,
      entry ''x:y'' True 4096 400, entry ''notes?.md'' False 7 500]"

definition indexed_files :: "os_FileInfo list" where
  "indexed_files = sample_files @ [entry ''index.html'' False 120 600]"

definition sample_listing :: "unit Listing" where
  "sample_listing = fst (directoryListing sample_extern sample_files True ''/srv/files/'')"

text \<open>
  A file system with the directory above at \<^verbatim>\<open>/srv/files\<close>, the directory with the index
  page at \<^verbatim>\<open>/srv/site\<close>, a path that may not be opened and one that is in the way; a scope
  \<^verbatim>\<open>/srv\<close> over it; an empty response writer and an empty preference store; requests.
\<close>

definition sample_dir :: http_File where
  "sample_dir = \<lparr>Stat = Inr (entry ''files'' True 4096 50), Readdir = Inr sample_files\<rparr>"

definition indexed_dir :: http_File where
  "indexed_dir = \<lparr>Stat = Inr (entry ''site'' True 4096 60), Readdir = Inr indexed_files\<rparr>"

definition sample_root :: http_FileSystem where
  "sample_root p =
     (if p = ''/srv/files/'' \<or> p = ''/srv/files'' then Inr sample_dir
      else if p = ''/srv/site/'' \<or> p = ''/srv/site'' then Inr indexed_dir
      else if p = ''/srv/secret/'' then Inl ErrPermission
      else if p = ''/srv/clash/'' then Inl ErrExist
      else Inl ErrNotExist)"

definition sample_template :: "unit Listing \<Rightarrow> error + string" where
  "sample_template l =
     Inr (''<h1>'' @ Listing.Name l @ ''</h1>'' @
          concat (map (\<lambda>fi. ''<a href=\"'' @ URL fi @ ''\">'' @ FileInfo.Name fi @ ''</a>'')
                    (Items l)))"

definition sample_config :: "unit Config" where
  "sample_config =
     \<lparr>PathScope = ''/srv'', Config.Root = sample_root, Variables = (),
      Template = sample_template\<rparr>"

definition sample_fm :: "unit FileManager" where
  "sample_fm = \<lparr>Configs = [sample_config], IgnoreIndexes = False\<rparr>"

definition empty_w :: ResponseWriter where
  "empty_w = \<lparr>header = Map.empty, body = [], redirect = None\<rparr>"

definition no_prefs :: prefs where
  "no_prefs = (\<lambda>scope. \<lparr>saved_sort = None, saved_order = None, saved_limit = None\<rparr>)"

definition request :: "string \<Rightarrow> string \<Rightarrow> (string \<times> string) list \<Rightarrow> string list \<Rightarrow> Request" where
  "request m p q accept =
     \<lparr>Method = m, URL_Path = p, URL_Query = map_of q,
      Header = (\<lambda>k. if k = ''Accept'' then accept else [])\<rparr>"

text \<open>
  Requests for the directory: one that accepts JSON, sorted by size and limited to two
  items, and one for HTML, sorted by time and limited to one; the preferences they leave;
  a serializer that fails; requests with a query that does not validate.
\<close>

definition json_request :: Request where
  "json_request =
     request ''GET'' ''/srv/files/''
       [(''sort'', ''size''), (''order'', ''asc''), (''limit'', ''2'')]
       [''text/html'', ''Application/JSON;q=0.9'']"

definition html_request :: Request where
  "html_request =
     request ''GET'' ''/srv/files/'' [(''sort'', ''time''), (''limit'', ''1'')] [''text/html'']"

definition size_prefs :: prefs where
  "size_prefs =
     no_prefs(''/srv'' :=
       \<lparr>saved_sort = Some ''size'', saved_order = Some ''asc'', saved_limit = Some 2\<rparr>)"

definition time_prefs :: prefs where
  "time_prefs =
     no_prefs(''/srv'' :=
       \<lparr>saved_sort = Some ''time'', saved_order = None, saved_limit = Some 1\<rparr>)"

definition failing_extern :: extern where
  "failing_extern =
     sample_extern\<lparr>json_Marshal := (\<lambda>items. Inl (ErrOther ''unsupported value''))\<rparr>"

definition bogus_request :: Request where
  "bogus_request = request ''GET'' ''/srv/site/'' [(''sort'', ''bogus'')] []"

definition bogus_noslash :: Request where
  "bogus_noslash = request ''GET'' ''/srv/files'' [(''sort'', ''bogus'')] []"

definition bad_sort :: Request where
  "bad_sort = request ''GET'' ''/srv/files/'' [(''sort'', ''bogus'')] []"

definition bad_order :: Request where
  "bad_order = request ''GET'' ''/srv/files/'' [(''order'', ''up'')] []"

definition bad_limit :: Request where
  "bad_limit = request ''HEAD'' ''/srv/files/'' [(''limit'', ''-1'')] []"

definition bad_number :: Request where
  "bad_number = request ''GET'' ''/srv/files/'' [(''sort'', ''size''), (''limit'', ''ten'')] []"

section \<open>Properties\<close>

subsection \<open>Facts about the loops\<close>

lemmas Status_defs = StatusOK_def StatusTemporaryRedirect_def StatusBadRequest_def
  StatusForbidden_def StatusNotFound_def StatusGone_def StatusInternalServerError_def
  StatusNotImplemented_def

lemmas bad_defs = bad_sort_def bad_order_def bad_limit_def bad_number_def

lemma strings_Split_nonempty: "strings_Split s sep \<noteq> []"
  by (induction s) (simp_all split: list.splits)

lemma strings_Split_example:
  "strings_Split ''/a/b/c'' CHR ''/'' = ['''', ''a'', ''b'', ''c'']"
  "strings_Split '''' CHR ''/'' = ['''']"
  "strings_Split ''a//'' CHR ''/'' = [''a'', '''', '''']"
  by simp_all

lemma indexLoop_iff: "indexLoop name ps h = (h \<or> name \<in> set ps)"
  by (induction ps) auto

lemma filesLoop_fileinfos:
  "fileinfos (filesLoop x files v) = fileinfos v @ map (entryInfo x) files"
  by (induction files arbitrary: v) (simp_all add: Let_def entryInfo_def)

lemma filesLoop_dirCount:
  "dirCount (filesLoop x files v) = dirCount v + int (length (filter os_IsDir files))"
  by (induction files arbitrary: v) (simp_all add: Let_def)

lemma filesLoop_fileCount:
  "fileCount (filesLoop x files v) =
     fileCount v + int (length (filter (\<lambda>f. \<not> os_IsDir f) files))"
  by (induction files arbitrary: v) (simp_all add: Let_def)

lemma filesLoop_hasIndexFile:
  "hasIndexFile (filesLoop x files v) =
     (hasIndexFile v \<or> (\<exists>f \<in> set files. os_Name f \<in> set (IndexPages x)))"
  by (induction files arbitrary: v) (auto simp add: Let_def indexLoop_iff)

lemma directoryListing_fields:
  "Items (fst (directoryListing x files c p)) = map (entryInfo x) files"
  "NumDirs (fst (directoryListing x files c p)) = int (length (filter os_IsDir files))"
  "NumFiles (fst (directoryListing x files c p)) =
     int (length (filter (\<lambda>f. \<not> os_IsDir f) files))"
  "ItemsLimitedTo (fst (directoryListing x files c p)) = 0"
  "snd (directoryListing x files c p) = (\<exists>f \<in> set files. os_Name f \<in> set (IndexPages x))"
  by (simp_all add: directoryListing_def Let_def filesLoop_fileinfos filesLoop_dirCount
      filesLoop_fileCount filesLoop_hasIndexFile)

lemma length_insertBy: "length (insertBy lt a bs) = Suc (length bs)"
  by (induction bs) simp_all

lemma length_stableSort: "length (stableSort lt as) = length as"
  by (induction as) (simp_all add: stableSort_def length_insertBy)

lemma applySort_fields:
  "NumDirs (applySort x l) = NumDirs l"
  "NumFiles (applySort x l) = NumFiles l"
  "ItemsLimitedTo (applySort x l) = ItemsLimitedTo l"
  "length (Items (applySort x l)) = length (Items l)"
  by (simp_all add: applySort_def length_stableSort)

lemma limitItems_counts:
  "NumDirs (limitItems limit l) = NumDirs l"
  "NumFiles (limitItems limit l) = NumFiles l"
  by (simp_all add: limitItems_def)

lemma filter_split_length:
  "length (filter P xs) + length (filter (\<lambda>x. \<not> P x) xs) = length xs"
  by (induction xs) simp_all

lemma sample_items: "Items sample_listing = map (entryInfo sample_extern) sample_files"
  by (simp add: sample_listing_def directoryListing_fields)

lemma length_sample: "length (Items sample_listing) = 5"
  by (simp add: sample_items sample_files_def)

lemma sample_limited: "ItemsLimitedTo sample_listing = 0"
  by (simp add: sample_listing_def directoryListing_fields)

subsection \<open>The counts of a listing\<close>

text \<open>
  Claim C1. For every sequence of raw entries, the listing that \<^verbatim>\<open>directoryListing\<close>
  assembles has \<open>NumDirs\<close> equal to the number of entries that are directories and
  \<open>NumFiles\<close> equal to the number of the others, so the two add up to the number of
  entries; the limit step changes neither count, and neither does the whole preparation
  of the listing in \<^verbatim>\<open>ServeListing\<close> (context, sort, limit).
\<close>

theorem directoryListing_counts:
  "(let l = fst (directoryListing x files canGoUp urlPath) :: 'u Listing in
      NumDirs l = int (length (filter os_IsDir files)) \<and>
      NumFiles l = int (length (filter (\<lambda>f. \<not> os_IsDir f) files)) \<and>
      NumDirs l + NumFiles l = int (length files) \<and>
      NumDirs (limitItems limit l) = NumDirs l \<and>
      NumFiles (limitItems limit l) = NumFiles l \<and>
      NumDirs (prepareListing x r bc s ord limit l) = NumDirs l \<and>
      NumFiles (prepareListing x r bc s ord limit l) = NumFiles l)"
proof -
  have "int (length (filter os_IsDir files)) + int (length (filter (\<lambda>f. \<not> os_IsDir f) files))
          = int (length files)"
    using filter_split_length [of os_IsDir files] by simp
  then show ?thesis
    by (simp add: Let_def directoryListing_fields limitItems_counts prepareListing_def
        applySort_fields)
qed

theorem directoryListing_counts_witness:
  "NumDirs sample_listing = 2 \<and> NumFiles sample_listing = 3 \<and>
   NumDirs (limitItems 2 sample_listing) = 2 \<and> NumFiles (limitItems 2 sample_listing) = 3"
proof -
  note counts = directoryListing_counts
    [of sample_extern sample_files True "''/srv/files/''" 2, where ?'u = unit,
      unfolded Let_def, folded sample_listing_def]
  from counts show ?thesis
    by (simp add: sample_files_def entry_def)
qed

subsection \<open>The limit\<close>

text \<open>
  Claim C2. For every listing and every limit that passed validation (it is not negative):
  if the limit is positive and at most the number of items, the items become their first
  \<open>limit\<close> ones and \<open>ItemsLimitedTo\<close> becomes the limit; if the limit is 0 or greater than
  the number of items, the items and \<open>ItemsLimitedTo\<close> stay as they were. The value that
  stays is 0: \<^verbatim>\<open>directoryListing\<close> returns the listing with \<open>ItemsLimitedTo = 0\<close> and the
  sort before the limit step does not touch the field.
\<close>

theorem limitItems_spec:
  "0 \<le> limit \<Longrightarrow>
     (0 < limit \<and> limit \<le> int (length (Items l)) \<longrightarrow>
        Items (limitItems limit l) = take (nat limit) (Items l) \<and>
        int (length (Items (limitItems limit l))) = limit \<and>
        ItemsLimitedTo (limitItems limit l) = limit) \<and>
     (limit = 0 \<or> int (length (Items l)) < limit \<longrightarrow>
        Items (limitItems limit l) = Items l \<and>
        ItemsLimitedTo (limitItems limit l) = ItemsLimitedTo l) \<and>
     ItemsLimitedTo (fst (directoryListing x files c p) :: 'u Listing) = 0 \<and>
     ItemsLimitedTo (applySort x l) = ItemsLimitedTo l"
  by (auto simp add: limitItems_def directoryListing_fields applySort_fields)

theorem limitItems_spec_witness:
  "Items (limitItems 2 sample_listing) = take 2 (Items sample_listing) \<and>
   length (Items (limitItems 2 sample_listing)) = 2 \<and>
   ItemsLimitedTo (limitItems 2 sample_listing) = 2 \<and>
   Items (limitItems 10 sample_listing) = Items sample_listing \<and>
   length (Items (limitItems 10 sample_listing)) = 5 \<and>
   ItemsLimitedTo (limitItems 10 sample_listing) = 0 \<and>
   ItemsLimitedTo (limitItems 0 sample_listing) = 0"
  using limitItems_spec [of 2 sample_listing sample_extern sample_files True "''/srv/files/''"]
    limitItems_spec [of 10 sample_listing sample_extern sample_files True "''/srv/files/''"]
    limitItems_spec [of 0 sample_listing sample_extern sample_files True "''/srv/files/''"]
  by (auto simp add: length_sample sample_limited)

text \<open>
  Claim C10. For every listing of \<open>n > 0\<close> items, a limit equal to \<open>n\<close> removes no item
  and still sets \<open>ItemsLimitedTo\<close> to \<open>n\<close>, which is not 0.
\<close>

theorem limitItems_exact_count:
  "0 < length (Items l) \<Longrightarrow>
     Items (limitItems (int (length (Items l))) l) = Items l \<and>
     ItemsLimitedTo (limitItems (int (length (Items l))) l) = int (length (Items l)) \<and>
     ItemsLimitedTo (limitItems (int (length (Items l))) l) \<noteq> 0"
  by (simp add: limitItems_def)

theorem limitItems_exact_count_witness:
  "Items (limitItems 5 sample_listing) = Items sample_listing \<and>
   ItemsLimitedTo (limitItems 5 sample_listing) = 5"
  using limitItems_exact_count [of sample_listing] by (simp add: length_sample)

subsection \<open>The entries of a listing\<close>

text \<open>
  Claim C9. For every raw entry, the item that \<^verbatim>\<open>directoryListing\<close> appends for it keeps
  the entry's name as it is, without the \<^verbatim>\<open>/\<close> that the loop adds to its local copy; the
  URL of a directory is the string of the URL with the path \<^verbatim>\<open>./\<close>, the name and \<^verbatim>\<open>/\<close>, the
  URL of any other entry is the string of the URL with the path \<^verbatim>\<open>./\<close> and the name.
\<close>

theorem directoryListing_item:
  "i < length files \<Longrightarrow>
     (let fi = Items (fst (directoryListing x files c p) :: 'u Listing) ! i; f = files ! i in
        FileInfo.Name fi = os_Name f \<and>
        IsDir fi = os_IsDir f \<and>
        (os_IsDir f \<longrightarrow> URL fi = URL_String x (''./'' @ os_Name f @ ''/'')) \<and>
        (\<not> os_IsDir f \<longrightarrow> URL fi = URL_String x (''./'' @ os_Name f)))"
  by (simp add: Let_def directoryListing_fields entryInfo_def)

text \<open>
  With the escaping of the instance, the URL of an entry is \<^verbatim>\<open>./\<close> and the escaped name:
  the first segment of the path is the dot, so nothing is put before it.
\<close>

lemma escape_path_append: "escape_path (a @ b) = escape_path a @ escape_path b"
  by (simp add: escape_path_def)

lemma url_String_dot_slash: "url_String (''./'' @ n) = ''./'' @ escape_path n"
proof -
  have e: "escape_path ''./'' = ''./''"
    by (simp add: escape_path_def shouldEscape_def Let_def)
  have "escape_path (''./'' @ n) = ''./'' @ escape_path n"
    by (simp only: escape_path_append e)
  then show ?thesis
    by (simp add: url_String_def Let_def)
qed

lemma url_String_B: "url_String ''./B/'' = ''./B/''"
  by (simp add: url_String_def escape_path_def shouldEscape_def Let_def)

lemma url_String_cd: "url_String ''./c d.txt'' = ''./c%20d.txt''"
  by (simp add: url_String_def escape_path_def shouldEscape_def hex_digit_def Let_def)

theorem directoryListing_item_witness:
  "FileInfo.Name (Items sample_listing ! 1) = ''B'' \<and>
   URL (Items sample_listing ! 1) = ''./B/'' \<and>
   FileInfo.Name (Items sample_listing ! 2) = ''c d.txt'' \<and>
   URL (Items sample_listing ! 2) = ''./c%20d.txt''"
proof -
  note item = directoryListing_item [of _ sample_files sample_extern True "''/srv/files/''",
      where ?'u = unit, unfolded Let_def, folded sample_listing_def]
  have u: "URL_String sample_extern = url_String"
    by (simp add: sample_extern_def)
  from item [of 1] item [of 2] show ?thesis
    by (simp add: sample_files_def entry_def u url_String_B url_String_cd)
qed

subsection \<open>Facts about the handler\<close>

lemma ServeListing_Readdir:
  "Readdir fp = Inr files \<Longrightarrow>
   ServeListing x f store w r fp bc =
     (let dl = directoryListing x files
                 (canGoUpLoop (path_Dir x (strings_TrimSuffix (URL_Path r) ''/'')) (Configs f))
                 (URL_Path r)
      in if snd dl \<and> \<not> IgnoreIndexes f then (Next, store)
         else (case handleSortOrder store r (PathScope bc) of
                 Inl err \<Rightarrow> (Return StatusBadRequest (Some err) w, store)
               | Inr (sort', order', limit, store') \<Rightarrow>
                   (render x w r bc (prepareListing x r bc sort' order' limit (fst dl)),
                    store')))"
  by (simp add: ServeListing_def loadDirectoryContents_def Let_def case_prod_unfold)

lemma ServeHTTP_directory:
  assumes "matchConfig x (URL_Path r) (Configs f) = Some bc"
    and "Config.Root bc (URL_Path r) = Inr fp"
    and "Stat fp = Inr info" and "os_IsDir info"
    and "Method r = ''GET'' \<or> Method r = ''HEAD''"
  shows "ServeHTTP x f store w r =
     (if \<not> strings_HasSuffix (URL_Path r) ''/'' then
        (Return 0 None (http_Redirect w (URL_Path r @ ''/'') StatusTemporaryRedirect), store)
      else ServeListing x f store w r fp bc)"
  using assms by (simp add: ServeHTTP_def)

lemma matchConfig_map:
  "(\<And>c. PathScope (g c) = PathScope c) \<Longrightarrow>
   matchConfig x p (map g cs) = map_option g (matchConfig x p cs)"
  by (induction cs) simp_all

lemma matchConfig_json:
  "matchConfig (x\<lparr>json_Marshal := jm\<rparr>) p cs = matchConfig x p cs"
  by (induction cs) simp_all

lemma render_cases:
  "render x w r bc l =
     (if strings_Contains (strings_ToLower x (strings_Join (Header r ''Accept'') '',''))
           ''application/json''
      then (case json_Marshal x (Items l) of
              Inl err \<Rightarrow> Return 500 (Some err) w
            | Inr js \<Rightarrow>
                Return 200 None
                  (w\<lparr>header := (header w)(''Content-Type'' \<mapsto>
                                    [''application/json; charset=utf-8'']),
                     body := body w @ js\<rparr>))
      else (case Template bc l of
              Inl err \<Rightarrow> Return 500 (Some err) w
            | Inr html \<Rightarrow>
                Return 200 None
                  (w\<lparr>header := (header w)(''Content-Type'' \<mapsto> [''text/html; charset=utf-8'']),
                     body := body w @ html\<rparr>)))"
  by (simp add: render_def Let_def formatAsJSON_def formatAsHTML_def Status_defs Header_Set_def
      WriteTo_def split: sum.splits)

lemma prepareListing_fields:
  "Items (prepareListing x r bc s ord limit l) =
     Items (limitItems limit (applySort x (l\<lparr>Sort := s, Order := ord\<rparr>)))"
  "Context (prepareListing x r bc s ord limit l) =
     Some \<lparr>Context.Root = Config.Root bc, Req = r\<rparr>"
  "User (prepareListing x r bc s ord limit l) = Some (Variables bc)"
  "Sort (prepareListing x r bc s ord limit l) = s"
  "Order (prepareListing x r bc s ord limit l) = ord"
  "Listing.Name (prepareListing x r bc s ord limit l) = Listing.Name l"
  by (simp_all add: prepareListing_def limitItems_def applySort_def)

text \<open>The sample requests, step by step.\<close>

lemma sample_match:
  "strings_HasPrefix p ''/srv'' \<Longrightarrow>
   matchConfig sample_extern p (Configs sample_fm) = Some sample_config"
  by (simp add: sample_fm_def sample_extern_def sample_config_def)

lemma sample_Root: "Config.Root sample_config = sample_root"
  by (simp add: sample_config_def)

lemma request_fields:
  "Method (request m p q a) = m" "URL_Path (request m p q a) = p"
  "URL_Query (request m p q a) = map_of q"
  "Header (request m p q a) ''Accept'' = a"
  by (simp_all add: request_def)

lemma sample_IndexPages:
  "IndexPages sample_extern =
     [''index.html'', ''index.htm'', ''index.txt'',
      ''default.html'', ''default.htm'', ''default.txt'']"
  by (simp add: sample_extern_def)

lemma sample_Stat:
  "Stat sample_dir = Inr (entry ''files'' True 4096 50)"
  "Stat indexed_dir = Inr (entry ''site'' True 4096 60)"
  "os_IsDir (entry n True sz t)"
  by (simp_all add: sample_dir_def indexed_dir_def entry_def)

lemma sample_Readdir:
  "Readdir sample_dir = Inr sample_files" "Readdir indexed_dir = Inr indexed_files"
  by (simp_all add: sample_dir_def indexed_dir_def)

lemma sample_no_index:
  "\<not> (\<exists>e \<in> set sample_files. os_Name e \<in> set (IndexPages sample_extern))"
  by (simp add: sample_files_def entry_def sample_extern_def)

lemma sample_index:
  "\<exists>e \<in> set indexed_files. os_Name e \<in> set (IndexPages sample_extern)"
  by (simp add: indexed_files_def entry_def sample_IndexPages)

lemma sample_canGoUp:
  "canGoUpLoop (path_Dir sample_extern (strings_TrimSuffix ''/srv/files/'' ''/''))
     (Configs sample_fm) = True"
  by (simp add: sample_extern_def sample_fm_def sample_config_def strings_TrimSuffix_def
      strings_HasSuffix_def dir_of_def trimSlashes_def strings_HasPrefix_def)

lemma sample_l0:
  "fst (directoryListing sample_extern sample_files
         (canGoUpLoop (path_Dir sample_extern (strings_TrimSuffix ''/srv/files/'' ''/''))
            (Configs sample_fm)) ''/srv/files/'') = sample_listing"
  by (simp only: sample_canGoUp sample_listing_def)

lemma sample_entries:
  "Items sample_listing =
     [\<lparr>IsDir = False, FileInfo.Name = ''a.txt'', Size = 10, URL = ''./a.txt'',
        ModTime = 300, Mode = 0x1A4\<rparr>,
      \<lparr>IsDir = True, FileInfo.Name = ''B'', Size = 4096, URL = ''./B/'',
        ModTime = 100, Mode = 0x800001ED\<rparr>,
      \<lparr>IsDir = False, FileInfo.Name = ''c d.txt'', Size = 5, URL = ''./c%20d.txt'',
        ModTime = 200, Mode = 0x1A4\<rparr>,
      \<lparr>IsDir = True, FileInfo.Name = ''x:y'', Size = 4096, URL = ''./x:y/'',
        ModTime = 400, Mode = 0x800001ED\<rparr>,
      \<lparr>IsDir = False, FileInfo.Name = ''notes?.md'', Size = 7, URL = ''./notes%3F.md'',
        ModTime = 500, Mode = 0x1A4\<rparr>]"
  by (simp add: sample_items sample_files_def entry_def entryInfo_def sample_extern_def
      url_String_def escape_path_def shouldEscape_def hex_digit_def Let_def)

lemma sample_Name: "Listing.Name sample_listing = ''files''"
  by (simp add: sample_listing_def directoryListing_def Let_def sample_extern_def base_of_def
      trimSlashes_def)

subsection \<open>Index files\<close>

text \<open>
  Claim C8. For every assembled directory, the flag that \<^verbatim>\<open>directoryListing\<close> returns is
  true exactly when the name of at least one raw entry is one of the index page names; and
  when the flag is true and \<open>IgnoreIndexes\<close> is off, \<^verbatim>\<open>ServeListing\<close> hands the request to
  the next handler and serves no listing.
\<close>

theorem index_file_defers:
  "snd (directoryListing x files c p :: 'u Listing \<times> bool) =
     (\<exists>e \<in> set files. os_Name e \<in> set (IndexPages x)) \<and>
   (Readdir fp = Inr files \<and> (\<exists>e \<in> set files. os_Name e \<in> set (IndexPages x)) \<and>
      \<not> IgnoreIndexes f \<longrightarrow>
    ServeListing x f store w r fp bc = (Next, store))"
  by (simp add: directoryListing_fields ServeListing_Readdir)

theorem index_file_defers_witness:
  "snd (directoryListing sample_extern indexed_files True ''/srv/site/''
          :: unit Listing \<times> bool) \<and>
   \<not> snd (directoryListing sample_extern sample_files True ''/srv/files/''
          :: unit Listing \<times> bool) \<and>
   ServeListing sample_extern sample_fm no_prefs empty_w
     (request ''GET'' ''/srv/site/'' [] []) indexed_dir sample_config = (Next, no_prefs)"
  using index_file_defers [of sample_extern indexed_files True "''/srv/site/''" indexed_dir
      sample_fm no_prefs empty_w "request ''GET'' ''/srv/site/'' [] []" sample_config,
      where ?'u = unit]
    index_file_defers [of sample_extern sample_files True "''/srv/files/''" sample_dir
      sample_fm no_prefs empty_w "request ''GET'' ''/srv/files/'' [] []" sample_config,
      where ?'u = unit]
  by (simp add: sample_IndexPages indexed_files_def sample_files_def entry_def indexed_dir_def
      sample_fm_def)

subsection \<open>Failure to open the target\<close>

text \<open>
  Claim C5. For every request in scope whose target fails to open: a permission error is
  answered with 403, an error of the kind "already exists" with 404, and every other
  failure hands the request to the next handler. Nothing is written and the preferences
  stay as they were.
\<close>

theorem open_failure:
  "matchConfig x (URL_Path r) (Configs f) = Some bc \<Longrightarrow>
   Config.Root bc (URL_Path r) = Inl err \<Longrightarrow>
     (os_IsPermission err \<longrightarrow>
        ServeHTTP x f store w r = (Return 403 (Some err) w, store)) \<and>
     (os_IsExist err \<longrightarrow>
        ServeHTTP x f store w r = (Return 404 (Some err) w, store)) \<and>
     (\<not> os_IsPermission err \<and> \<not> os_IsExist err \<longrightarrow>
        ServeHTTP x f store w r = (Next, store))"
  by (auto simp add: ServeHTTP_def os_IsPermission_def os_IsExist_def Status_defs)

theorem open_failure_witness:
  "ServeHTTP sample_extern sample_fm no_prefs empty_w (request ''GET'' ''/srv/secret/'' [] [])
     = (Return 403 (Some ErrPermission) empty_w, no_prefs) \<and>
   ServeHTTP sample_extern sample_fm no_prefs empty_w (request ''GET'' ''/srv/clash/'' [] [])
     = (Return 404 (Some ErrExist) empty_w, no_prefs) \<and>
   ServeHTTP sample_extern sample_fm no_prefs empty_w (request ''GET'' ''/srv/none'' [] [])
     = (Next, no_prefs)"
proof -
  have m: "matchConfig sample_extern (URL_Path (request ''GET'' p [] [])) (Configs sample_fm)
             = Some sample_config" if "strings_HasPrefix p ''/srv''" for p
    using that by (simp add: sample_match request_fields)
  have p1: "strings_HasPrefix ''/srv/secret/'' ''/srv''"
    and p2: "strings_HasPrefix ''/srv/clash/'' ''/srv''"
    and p3: "strings_HasPrefix ''/srv/none'' ''/srv''"
    by (simp_all add: strings_HasPrefix_def)
  have r1: "Config.Root sample_config (URL_Path (request ''GET'' ''/srv/secret/'' [] []))
              = Inl ErrPermission"
    and r2: "Config.Root sample_config (URL_Path (request ''GET'' ''/srv/clash/'' [] []))
              = Inl ErrExist"
    and r3: "Config.Root sample_config (URL_Path (request ''GET'' ''/srv/none'' [] []))
              = Inl ErrNotExist"
    by (simp_all add: sample_Root request_fields sample_root_def)
  from open_failure [OF m [OF p1] r1, of no_prefs empty_w]
    open_failure [OF m [OF p2] r2, of no_prefs empty_w]
    open_failure [OF m [OF p3] r3, of no_prefs empty_w]
  show ?thesis
    by (simp add: os_IsPermission_def os_IsExist_def)
qed

subsection \<open>The redirect to the path with a trailing slash\<close>

text \<open>
  Claim C7. For every GET or HEAD request that matches a scope and opens as a directory
  while its path does not end in \<^verbatim>\<open>/\<close>, the handler redirects with 307 to the path with
  \<^verbatim>\<open>/\<close> appended and returns; header, body and preferences are as they were, and the
  outcome is the same whatever the enumeration of the directory, the serializer and the
  template would give, so none of the listing work takes part in it.
\<close>

theorem redirect_without_slash:
  "matchConfig x (URL_Path r) (Configs f) = Some bc \<Longrightarrow>
   Config.Root bc (URL_Path r) = Inr fp \<Longrightarrow>
   Stat fp = Inr info \<Longrightarrow> os_IsDir info \<Longrightarrow>
   Method r = ''GET'' \<or> Method r = ''HEAD'' \<Longrightarrow>
   \<not> strings_HasSuffix (URL_Path r) ''/'' \<Longrightarrow>
     ServeHTTP x f store w r =
       (Return 0 None (w\<lparr>redirect := Some (URL_Path r @ ''/'', 307)\<rparr>), store) \<and>
     ServeHTTP (x\<lparr>json_Marshal := jm\<rparr>) (replaceListing rd t f) store w r =
       ServeHTTP x f store w r"
proof -
  assume m: "matchConfig x (URL_Path r) (Configs f) = Some bc"
    and o: "Config.Root bc (URL_Path r) = Inr fp"
    and s: "Stat fp = Inr info" and d: "os_IsDir info"
    and g: "Method r = ''GET'' \<or> Method r = ''HEAD''"
    and n: "\<not> strings_HasSuffix (URL_Path r) ''/''"
  let ?g = "\<lambda>c. c\<lparr>Config.Root :=
                       (\<lambda>p. case Config.Root c p of
                               Inl err \<Rightarrow> Inl err
                             | Inr file \<Rightarrow> Inr (file\<lparr>Readdir := rd\<rparr>)),
                     Template := t\<rparr>"
  have a: "ServeHTTP x f store w r =
       (Return 0 None (w\<lparr>redirect := Some (URL_Path r @ ''/'', 307)\<rparr>), store)"
    using n by (simp add: ServeHTTP_directory [OF m o s d g] http_Redirect_def Status_defs)
  have m': "matchConfig (x\<lparr>json_Marshal := jm\<rparr>) (URL_Path r)
              (Configs (replaceListing rd t f)) = Some (?g bc)"
    using m by (simp add: replaceListing_def matchConfig_map matchConfig_json)
  have o': "Config.Root (?g bc) (URL_Path r) = Inr (fp\<lparr>Readdir := rd\<rparr>)"
    using o by simp
  have s': "Stat (fp\<lparr>Readdir := rd\<rparr>) = Inr info"
    using s by simp
  have b: "ServeHTTP (x\<lparr>json_Marshal := jm\<rparr>) (replaceListing rd t f) store w r =
       (Return 0 None (w\<lparr>redirect := Some (URL_Path r @ ''/'', 307)\<rparr>), store)"
    using n by (simp add: ServeHTTP_directory [OF m' o' s' d g] http_Redirect_def Status_defs)
  from a b show ?thesis by simp
qed

theorem redirect_without_slash_witness:
  "ServeHTTP sample_extern sample_fm no_prefs empty_w
     (request ''GET'' ''/srv/files'' [(''limit'', ''2'')] [''application/json''])
     = (Return 0 None \<lparr>header = Map.empty, body = [], redirect = Some (''/srv/files/'', 307)\<rparr>,
        no_prefs) \<and>
   ServeHTTP failing_extern
     (replaceListing (Inl ErrPermission) (\<lambda>l. Inl (ErrOther ''template'')) sample_fm)
     no_prefs empty_w
     (request ''GET'' ''/srv/files'' [(''limit'', ''2'')] [''application/json''])
     = (Return 0 None \<lparr>header = Map.empty, body = [], redirect = Some (''/srv/files/'', 307)\<rparr>,
        no_prefs)"
proof -
  let ?r = "request ''GET'' ''/srv/files'' [(''limit'', ''2'')] [''application/json'']"
  have m: "matchConfig sample_extern (URL_Path ?r) (Configs sample_fm) = Some sample_config"
    by (simp add: sample_match strings_HasPrefix_def request_fields)
  have o: "Config.Root sample_config (URL_Path ?r) = Inr sample_dir"
    by (simp add: sample_Root sample_root_def request_fields)
  have g: "Method ?r = ''GET'' \<or> Method ?r = ''HEAD''"
    by (simp add: request_fields)
  have n: "\<not> strings_HasSuffix (URL_Path ?r) ''/''"
    by (simp add: strings_HasSuffix_def request_fields)
  from redirect_without_slash [OF m o sample_Stat(1) sample_Stat(3) g n,
      of no_prefs empty_w "\<lambda>items. Inl (ErrOther ''unsupported value'')" "Inl ErrPermission"
        "\<lambda>l. Inl (ErrOther ''template'')"]
  show ?thesis
    by (simp add: empty_w_def request_fields failing_extern_def)
qed

subsection \<open>Content negotiation\<close>

lemma json_hso:
  "handleSortOrder no_prefs json_request (PathScope sample_config)
     = Inr (''size'', ''asc'', 2, size_prefs)"
  by (simp add: handleSortOrder_def json_request_def Let_def resolveSort_def resolveOrder_def
     resolveLimit_def parse_int_def parse_nat_def digit_val_def record_pref_def no_prefs_def
     size_prefs_def sample_config_def request_fields)

lemma html_hso:
  "handleSortOrder no_prefs html_request (PathScope sample_config)
     = Inr (''time'', ''asc'', 1, time_prefs)"
  by (simp add: handleSortOrder_def html_request_def Let_def resolveSort_def resolveOrder_def
     resolveLimit_def parse_int_def parse_nat_def digit_val_def record_pref_def no_prefs_def
     time_prefs_def sample_config_def request_fields)

lemma json_items:
  "Items (limitItems 2
            (applySort sample_extern (sample_listing\<lparr>Sort := ''size'', Order := ''asc''\<rparr>)))
     = [\<lparr>IsDir = False, FileInfo.Name = ''c d.txt'', Size = 5, URL = ''./c%20d.txt'',
          ModTime = 200, Mode = 0x1A4\<rparr>,
        \<lparr>IsDir = False, FileInfo.Name = ''notes?.md'', Size = 7, URL = ''./notes%3F.md'',
          ModTime = 500, Mode = 0x1A4\<rparr>]"
  by (simp add: limitItems_def applySort_def sample_entries stableSort_def lessBy_def)

lemma html_items:
  "Items (limitItems 1
            (applySort sample_extern (sample_listing\<lparr>Sort := ''time'', Order := ''asc''\<rparr>)))
     = [\<lparr>IsDir = True, FileInfo.Name = ''B'', Size = 4096, URL = ''./B/'',
          ModTime = 100, Mode = 0x800001ED\<rparr>]"
  by (simp add: limitItems_def applySort_def sample_entries stableSort_def lessBy_def)

lemma json_accept:
  "strings_Contains
     (strings_ToLower sample_extern (strings_Join (Header json_request ''Accept'') '',''))
     ''application/json''"
  by (simp add: json_request_def sample_extern_def ascii_lower_def strings_HasPrefix_def
      request_fields)

lemma html_accept:
  "\<not> strings_Contains
     (strings_ToLower sample_extern (strings_Join (Header html_request ''Accept'') '',''))
     ''application/json''"
  by (simp add: html_request_def sample_extern_def ascii_lower_def strings_HasPrefix_def
      request_fields)

text \<open>
  Claim C6. For every directory request in scope that is served with a listing
  (the directory enumerates, no index file defers it, the query parameters resolve): if
  the values of the \<^verbatim>\<open>Accept\<close> header, joined by commas and lower-cased, contain
  \<^verbatim>\<open>application/json\<close>, the body is the serialization of the items alone, sorted and
  limited, with the JSON content type; otherwise the whole listing (context, user
  variables, sort and order filled in) goes through the template of the scope, with the
  HTML content type; and a failure of either renderer is answered with 500 and writes
  nothing.
\<close>

theorem content_negotiation:
  "Readdir fp = Inr files \<Longrightarrow>
   IgnoreIndexes f \<or> \<not> (\<exists>e \<in> set files. os_Name e \<in> set (IndexPages x)) \<Longrightarrow>
   handleSortOrder store r (PathScope bc) = Inr (s, ord, limit, store') \<Longrightarrow>
   (let l0 = fst (directoryListing x files
                    (canGoUpLoop (path_Dir x (strings_TrimSuffix (URL_Path r) ''/'')) (Configs f))
                    (URL_Path r));
        l = prepareListing x r bc s ord limit l0;
        acceptHeader = strings_ToLower x (strings_Join (Header r ''Accept'') '','')
    in ServeListing x f store w r fp bc =
         (if strings_Contains acceptHeader ''application/json'' then
            (case json_Marshal x (Items l) of
               Inr js \<Rightarrow>
                 (Return 200 None
                    (w\<lparr>header := (header w)(''Content-Type'' \<mapsto>
                                      [''application/json; charset=utf-8'']),
                       body := body w @ js\<rparr>), store')
             | Inl err \<Rightarrow> (Return 500 (Some err) w, store'))
          else
            (case Template bc l of
               Inr html \<Rightarrow>
                 (Return 200 None
                    (w\<lparr>header := (header w)(''Content-Type'' \<mapsto>
                                      [''text/html; charset=utf-8'']),
                       body := body w @ html\<rparr>), store')
             | Inl err \<Rightarrow> (Return 500 (Some err) w, store'))) \<and>
       Items l = Items (limitItems limit (applySort x (l0\<lparr>Sort := s, Order := ord\<rparr>))) \<and>
       Context l = Some \<lparr>Context.Root = Config.Root bc, Req = r\<rparr> \<and>
       User l = Some (Variables bc) \<and> Sort l = s \<and> Order l = ord)"
  by (auto simp add: ServeListing_Readdir Let_def directoryListing_fields render_cases
      prepareListing_fields split: sum.splits)

theorem content_negotiation_witness:
  "ServeListing sample_extern sample_fm no_prefs empty_w json_request sample_dir sample_config =
     (Return 200 None
        \<lparr>header = [''Content-Type'' \<mapsto> [''application/json; charset=utf-8'']],
         body = ''[{\"IsDir\":false,\"Name\":\"c d.txt\",\"URL\":\"./c%20d.txt\"},'' @
                ''{\"IsDir\":false,\"Name\":\"notes?.md\",\"URL\":\"./notes%3F.md\"}]'',
         redirect = None\<rparr>,
      size_prefs) \<and>
   ServeListing sample_extern sample_fm no_prefs empty_w html_request sample_dir sample_config =
     (Return 200 None
        \<lparr>header = [''Content-Type'' \<mapsto> [''text/html; charset=utf-8'']],
         body = ''<h1>files</h1><a href=\"./B/\">B</a>'',
         redirect = None\<rparr>,
      time_prefs) \<and>
   ServeListing failing_extern sample_fm no_prefs empty_w json_request sample_dir sample_config =
     (Return 500 (Some (ErrOther ''unsupported value'')) empty_w, size_prefs)"
proof -
  have ix: "IgnoreIndexes sample_fm \<or>
      \<not> (\<exists>e \<in> set sample_files. os_Name e \<in> set (IndexPages sample_extern))"
    using sample_no_index by simp
  have ix': "IgnoreIndexes sample_fm \<or>
      \<not> (\<exists>e \<in> set sample_files. os_Name e \<in> set (IndexPages failing_extern))"
    using sample_no_index by (simp add: failing_extern_def)
  have p: "URL_Path json_request = ''/srv/files/''" "URL_Path html_request = ''/srv/files/''"
    by (simp_all add: json_request_def html_request_def request_fields)
  have m: "json_Marshal sample_extern = marshal_items"
    by (simp add: sample_extern_def)
  have t: "Template sample_config = sample_template"
    by (simp add: sample_config_def)
  note j = content_negotiation [OF sample_Readdir(1) ix json_hso, of empty_w,
      unfolded Let_def p sample_l0]
  note h = content_negotiation [OF sample_Readdir(1) ix html_hso, of empty_w,
      unfolded Let_def p sample_l0]
  note e = content_negotiation [OF sample_Readdir(1) ix' json_hso, of empty_w,
      unfolded Let_def p]
  have 1: "ServeListing sample_extern sample_fm no_prefs empty_w json_request sample_dir
             sample_config =
           (Return 200 None
              \<lparr>header = [''Content-Type'' \<mapsto> [''application/json; charset=utf-8'']],
               body = ''[{\"IsDir\":false,\"Name\":\"c d.txt\",\"URL\":\"./c%20d.txt\"},'' @
                      ''{\"IsDir\":false,\"Name\":\"notes?.md\",\"URL\":\"./notes%3F.md\"}]'',
               redirect = None\<rparr>,
            size_prefs)"
    using j by (simp add: json_accept json_items prepareListing_fields m marshal_items_def
        marshal_item_def empty_w_def)
  have 2: "ServeListing sample_extern sample_fm no_prefs empty_w html_request sample_dir
             sample_config =
           (Return 200 None
              \<lparr>header = [''Content-Type'' \<mapsto> [''text/html; charset=utf-8'']],
               body = ''<h1>files</h1><a href=\"./B/\">B</a>'',
               redirect = None\<rparr>,
            time_prefs)"
    using h by (simp add: html_accept html_items prepareListing_fields t sample_template_def
        sample_Name empty_w_def)
  have a: "strings_Contains
     (strings_ToLower failing_extern (strings_Join (Header json_request ''Accept'') '',''))
     ''application/json''"
    using json_accept by (simp add: failing_extern_def)
  have 3: "ServeListing failing_extern sample_fm no_prefs empty_w json_request sample_dir
             sample_config =
           (Return 500 (Some (ErrOther ''unsupported value'')) empty_w, size_prefs)"
    using e by (simp add: a) (simp add: failing_extern_def)
  from 1 2 3 show ?thesis by simp
qed

subsection \<open>Validation of the query parameters\<close>

lemma parse_digits_None: "(parse_digits s acc = None) = (\<exists>c \<in> set s. digit_val c = None)"
  by (induction s arbitrary: acc) (auto split: option.splits)

lemma parse_nat_None: "(parse_nat s = None) = (\<not> digits s)"
  by (auto simp add: parse_nat_def digits_def parse_digits_None list_all_iff)

lemma parse_int_None: "(parse_int s = None) = (\<not> numeric s)"
  by (cases s) (auto simp add: parse_int_def numeric_def parse_nat_None)

lemma handleSortOrder_bad:
  "bad_query r \<Longrightarrow> \<exists>err. handleSortOrder store r scope = Inl err"
  unfolding bad_query_def handleSortOrder_def Let_def
  by (auto simp add: resolveSort_def resolveOrder_def resolveLimit_def parse_int_None [symmetric]
      split: option.splits sum.splits)

lemma ServeHTTP_indexed:
  "ServeHTTP sample_extern sample_fm no_prefs empty_w bogus_request = (Next, no_prefs)"
proof -
  have m: "matchConfig sample_extern (URL_Path bogus_request) (Configs sample_fm)
             = Some sample_config"
    by (simp add: bogus_request_def sample_match strings_HasPrefix_def request_fields)
  have o: "Config.Root sample_config (URL_Path bogus_request) = Inr indexed_dir"
    by (simp add: bogus_request_def sample_Root sample_root_def request_fields)
  have g: "Method bogus_request = ''GET'' \<or> Method bogus_request = ''HEAD''"
    by (simp add: bogus_request_def request_fields)
  have n: "strings_HasSuffix (URL_Path bogus_request) ''/''"
    by (simp add: bogus_request_def strings_HasSuffix_def request_fields)
  have "ServeHTTP sample_extern sample_fm no_prefs empty_w bogus_request =
          ServeListing sample_extern sample_fm no_prefs empty_w bogus_request indexed_dir
            sample_config"
    using n by (simp add: ServeHTTP_directory [OF m o sample_Stat(2) sample_Stat(3) g])
  also have "\<dots> = (Next, no_prefs)"
    using sample_index
    by (simp add: ServeListing_Readdir [OF sample_Readdir(2)] Let_def directoryListing_fields
        sample_fm_def)
  finally show ?thesis .
qed

lemma ServeHTTP_noslash:
  "ServeHTTP sample_extern sample_fm no_prefs empty_w bogus_noslash =
     (Return 0 None (empty_w\<lparr>redirect := Some (''/srv/files/'', 307)\<rparr>), no_prefs)"
proof -
  have m: "matchConfig sample_extern (URL_Path bogus_noslash) (Configs sample_fm)
             = Some sample_config"
    by (simp add: bogus_noslash_def sample_match strings_HasPrefix_def request_fields)
  have o: "Config.Root sample_config (URL_Path bogus_noslash) = Inr sample_dir"
    by (simp add: bogus_noslash_def sample_Root sample_root_def request_fields)
  have g: "Method bogus_noslash = ''GET'' \<or> Method bogus_noslash = ''HEAD''"
    by (simp add: bogus_noslash_def request_fields)
  have n: "\<not> strings_HasSuffix (URL_Path bogus_noslash) ''/''"
    by (simp add: bogus_noslash_def strings_HasSuffix_def request_fields)
  show ?thesis
    using n by (simp add: ServeHTTP_directory [OF m o sample_Stat(1) sample_Stat(3) g]
        http_Redirect_def Status_defs) (simp add: bogus_noslash_def request_fields)
qed

lemma bad_dir:
  assumes "r \<in> {bad_sort, bad_order, bad_limit, bad_number}"
  shows "matchConfig sample_extern (URL_Path r) (Configs sample_fm) = Some sample_config"
    and "Config.Root sample_config (URL_Path r) = Inr sample_dir"
    and "Method r = ''GET'' \<or> Method r = ''HEAD''"
    and "strings_HasSuffix (URL_Path r) ''/''"
  using assms
  by (auto simp add: bad_defs sample_match strings_HasPrefix_def sample_Root sample_root_def
      strings_HasSuffix_def request_fields)

lemma bad_queries:
  "bad_query bad_sort" "bad_query bad_order" "bad_query bad_limit" "bad_query bad_number"
  "bad_query bogus_request" "bad_query bogus_noslash"
  by (simp_all add: bad_query_def bad_defs bogus_request_def bogus_noslash_def numeric_def
      digits_def digit_val_def parse_int_def parse_nat_def request_fields)

lemma bad_errors:
  "handleSortOrder no_prefs bad_sort ''/srv'' = Inl (ErrInvalid ''bogus'')"
  "handleSortOrder no_prefs bad_order ''/srv'' = Inl (ErrInvalid ''up'')"
  "handleSortOrder no_prefs bad_limit ''/srv'' = Inl (ErrInvalid ''-1'')"
  "handleSortOrder no_prefs bad_number ''/srv'' = Inl (ErrInvalid ''ten'')"
  by (simp_all add: handleSortOrder_def bad_defs Let_def resolveSort_def resolveOrder_def
     resolveLimit_def parse_int_def parse_nat_def digit_val_def no_prefs_def request_fields)

lemma bad_ServeListing:
  "handleSortOrder no_prefs r ''/srv'' = Inl err \<Longrightarrow>
   ServeListing sample_extern sample_fm no_prefs empty_w r sample_dir sample_config =
     (Return 400 (Some err) empty_w, no_prefs)"
  using sample_no_index
  by (simp add: ServeListing_Readdir [OF sample_Readdir(1)] Let_def directoryListing_fields
      Status_defs sample_config_def)

text \<open>
  Claim C4, as amended. For every GET or HEAD request in scope for a directory, with a
  path that ends in \<^verbatim>\<open>/\<close>, whose directory enumerates and is not handed to the next handler
  for an index file: a sort outside name, size, time, an order outside asc, desc, or a
  limit that is negative or not a decimal integer is answered with 400 and an error;
  nothing is written, no preference is recorded and no listing is rendered with a default.
\<close>

theorem bad_query_rejected:
  "matchConfig x (URL_Path r) (Configs f) = Some bc \<Longrightarrow>
   Config.Root bc (URL_Path r) = Inr fp \<Longrightarrow>
   Stat fp = Inr info \<Longrightarrow> os_IsDir info \<Longrightarrow>
   Method r = ''GET'' \<or> Method r = ''HEAD'' \<Longrightarrow>
   strings_HasSuffix (URL_Path r) ''/'' \<Longrightarrow>
   Readdir fp = Inr files \<Longrightarrow>
   IgnoreIndexes f \<or> \<not> (\<exists>e \<in> set files. os_Name e \<in> set (IndexPages x)) \<Longrightarrow>
   bad_query r \<Longrightarrow>
     \<exists>err. ServeHTTP x f store w r = (Return 400 (Some err) w, store)"
proof -
  assume m: "matchConfig x (URL_Path r) (Configs f) = Some bc"
    and o: "Config.Root bc (URL_Path r) = Inr fp"
    and s: "Stat fp = Inr info" and d: "os_IsDir info"
    and g: "Method r = ''GET'' \<or> Method r = ''HEAD''"
    and n: "strings_HasSuffix (URL_Path r) ''/''"
    and rd: "Readdir fp = Inr files"
    and ix: "IgnoreIndexes f \<or> \<not> (\<exists>e \<in> set files. os_Name e \<in> set (IndexPages x))"
    and bad: "bad_query r"
  from handleSortOrder_bad [OF bad] obtain err
    where e: "handleSortOrder store r (PathScope bc) = Inl err" by blast
  have "ServeHTTP x f store w r = ServeListing x f store w r fp bc"
    using n by (simp add: ServeHTTP_directory [OF m o s d g])
  also have "\<dots> = (Return 400 (Some err) w, store)"
    using ix e by (auto simp add: ServeListing_Readdir [OF rd] Let_def directoryListing_fields
        Status_defs)
  finally show ?thesis by blast
qed

theorem bad_query_rejected_witness:
  "ServeHTTP sample_extern sample_fm no_prefs empty_w bad_sort =
     (Return 400 (Some (ErrInvalid ''bogus'')) empty_w, no_prefs) \<and>
   ServeHTTP sample_extern sample_fm no_prefs empty_w bad_order =
     (Return 400 (Some (ErrInvalid ''up'')) empty_w, no_prefs) \<and>
   ServeHTTP sample_extern sample_fm no_prefs empty_w bad_limit =
     (Return 400 (Some (ErrInvalid ''-1'')) empty_w, no_prefs) \<and>
   ServeHTTP sample_extern sample_fm no_prefs empty_w bad_number =
     (Return 400 (Some (ErrInvalid ''ten'')) empty_w, no_prefs)"
proof -
  have ix: "IgnoreIndexes sample_fm \<or>
      \<not> (\<exists>e \<in> set sample_files. os_Name e \<in> set (IndexPages sample_extern))"
    using sample_no_index by simp
  have step: "ServeHTTP sample_extern sample_fm no_prefs empty_w r =
      (Return 400 (Some err) empty_w, no_prefs)"
    if r: "r \<in> {bad_sort, bad_order, bad_limit, bad_number}" and b: "bad_query r"
      and e: "handleSortOrder no_prefs r ''/srv'' = Inl err" for r err
  proof -
    from bad_query_rejected [OF bad_dir(1) [OF r] bad_dir(2) [OF r] sample_Stat(1)
        sample_Stat(3) bad_dir(3) [OF r] bad_dir(4) [OF r] sample_Readdir(1) ix b,
        of no_prefs empty_w]
    obtain err' where s: "ServeHTTP sample_extern sample_fm no_prefs empty_w r =
      (Return 400 (Some err') empty_w, no_prefs)" by blast
    have "ServeHTTP sample_extern sample_fm no_prefs empty_w r =
        ServeListing sample_extern sample_fm no_prefs empty_w r sample_dir sample_config"
      using bad_dir(4) [OF r]
      by (simp add: ServeHTTP_directory [OF bad_dir(1) [OF r] bad_dir(2) [OF r] sample_Stat(1)
            sample_Stat(3) bad_dir(3) [OF r]])
    with s bad_ServeListing [OF e] have "err' = err"
      by simp
    with s show ?thesis
      by simp
  qed
  show ?thesis
    by (simp add: step bad_queries bad_errors)
qed

text \<open>
  The claim as it was stated fails: a request in scope for a directory with an index
  page, or for a directory path without the trailing \<^verbatim>\<open>/\<close>, that carries \<^verbatim>\<open>sort=bogus\<close> is
  handed to the next handler, or redirected, before the parameters are read.
\<close>

theorem bad_query_not_rejected:
  "matchConfig sample_extern (URL_Path bogus_request) (Configs sample_fm) = Some sample_config \<and>
   Config.Root sample_config (URL_Path bogus_request) = Inr indexed_dir \<and>
   Stat indexed_dir = Inr (entry ''site'' True 4096 60) \<and>
   os_IsDir (entry ''site'' True 4096 60) \<and>
   URL_Query bogus_request ''sort'' = Some ''bogus'' \<and>
   bad_query bogus_request \<and>
   ServeHTTP sample_extern sample_fm no_prefs empty_w bogus_request = (Next, no_prefs) \<and>
   matchConfig sample_extern (URL_Path bogus_noslash) (Configs sample_fm) = Some sample_config \<and>
   Config.Root sample_config (URL_Path bogus_noslash) = Inr sample_dir \<and>
   Stat sample_dir = Inr (entry ''files'' True 4096 50) \<and>
   os_IsDir (entry ''files'' True 4096 50) \<and>
   URL_Query bogus_noslash ''sort'' = Some ''bogus'' \<and>
   bad_query bogus_noslash \<and>
   ServeHTTP sample_extern sample_fm no_prefs empty_w bogus_noslash =
     (Return 0 None (empty_w\<lparr>redirect := Some (''/srv/files/'', 307)\<rparr>), no_prefs)"
proof -
  have m: "matchConfig sample_extern (URL_Path bogus_noslash) (Configs sample_fm)
             = Some sample_config"
    "matchConfig sample_extern (URL_Path bogus_request) (Configs sample_fm)
             = Some sample_config"
    by (simp_all add: bogus_noslash_def bogus_request_def sample_match strings_HasPrefix_def
        request_fields)
  have o: "Config.Root sample_config (URL_Path bogus_noslash) = Inr sample_dir"
    "Config.Root sample_config (URL_Path bogus_request) = Inr indexed_dir"
    by (simp_all add: bogus_noslash_def bogus_request_def sample_Root sample_root_def
        request_fields)
  have q: "URL_Query bogus_request ''sort'' = Some ''bogus''"
    "URL_Query bogus_noslash ''sort'' = Some ''bogus''"
    by (simp_all add: bogus_request_def bogus_noslash_def request_fields)
  from m o q ServeHTTP_indexed ServeHTTP_noslash sample_Stat bad_queries show ?thesis
    by simp
qed

subsection \<open>The breadcrumb map\<close>

lemma emit_first:
  "i < n \<Longrightarrow>
   m ++ map_of (rev (map e [i..<n])) =
     m(fst (e i) \<mapsto> snd (e i)) ++ map_of (rev (map e [Suc i..<n]))"
proof -
  assume "i < n"
  then have "[i..<n] = i # [Suc i..<n]"
    by (simp add: upt_conv_Cons)
  then have "map_of (rev (map e [i..<n])) =
      [fst (e i) \<mapsto> snd (e i)] ++ map_of (rev (map e [Suc i..<n]))"
    by simp
  then show ?thesis
    by (simp only: map_add_assoc map_add_upd map_add_empty)
qed

lemma breadcrumbLoop_entries:
  "breadcrumbLoop parts i m =
     m ++ map_of (rev (map (breadcrumb_entry parts) [i..<length parts]))"
proof (induction parts i m rule: breadcrumbLoop.induct)
  case (1 parts i result)
  show ?case
  proof (cases "i < length parts")
    case False
    then show ?thesis
      by (subst breadcrumbLoop.simps) simp
  next
    case True
    note first = emit_first [OF True, of result "breadcrumb_entry parts"]
    show ?thesis
    proof (cases "i = 0 \<and> parts ! i = []")
      case root: True
      have e: "breadcrumb_entry parts i = (''/'', ''/'')"
        unfolding breadcrumb_entry_def by (rule if_P [OF root])
      have "breadcrumbLoop parts i result =
              breadcrumbLoop parts (i + 1) (result(''/'' \<mapsto> ''/''))"
        by (subst breadcrumbLoop.simps) (use True root in \<open>auto simp add: Let_def\<close>)
      also have "\<dots> = result(''/'' \<mapsto> ''/'') ++
              map_of (rev (map (breadcrumb_entry parts) [i + 1..<length parts]))"
        by (rule "1.IH"(1) [OF True refl root])
      also have "\<dots> = result ++
              map_of (rev (map (breadcrumb_entry parts) [i..<length parts]))"
        by (simp add: first e)
      finally show ?thesis .
    next
      case seg: False
      let ?k = "strings_Join (take (i + 1) parts) ''/''"
      have e: "breadcrumb_entry parts i = (?k, parts ! i)"
        unfolding breadcrumb_entry_def by (rule if_not_P [OF seg])
      have "breadcrumbLoop parts i result =
              breadcrumbLoop parts (i + 1) (result(?k \<mapsto> parts ! i))"
        by (subst breadcrumbLoop.simps) (use True seg in \<open>auto simp add: Let_def\<close>)
      also have "\<dots> = result(?k \<mapsto> parts ! i) ++
              map_of (rev (map (breadcrumb_entry parts) [i + 1..<length parts]))"
        by (rule "1.IH"(2) [OF True refl seg])
      also have "\<dots> = result ++
              map_of (rev (map (breadcrumb_entry parts) [i..<length parts]))"
        by (simp add: first e)
      finally show ?thesis .
    qed
  qed
qed

lemma BreadcrumbMap_example:
  "BreadcrumbMap (l\<lparr>Path := ''/a/b/c/''\<rparr>) =
     [''/'' \<mapsto> ''/'', ''/a'' \<mapsto> ''a'', ''/a/b'' \<mapsto> ''b'', ''/a/b/c'' \<mapsto> ''c'']"
  by (simp add: BreadcrumbMap_def breadcrumbLoop.simps Let_def)

text \<open>
  A relative path has no root entry, and a path that starts with two separators has the
  key \<^verbatim>\<open>/\<close> assigned twice: the joined segments \<open>0..1\<close> are \<^verbatim>\<open>/\<close> again, and the second
  assignment, to the empty segment, is the one that stays.
\<close>

lemma BreadcrumbMap_relative:
  "BreadcrumbMap (l\<lparr>Path := ''a/b''\<rparr>) = [''a'' \<mapsto> ''a'', ''a/b'' \<mapsto> ''b'']"
  by (simp add: BreadcrumbMap_def breadcrumbLoop.simps Let_def)

lemma BreadcrumbMap_doubled_slash:
  "BreadcrumbMap (l\<lparr>Path := ''//a''\<rparr>) = [''/'' \<mapsto> '''', ''//a'' \<mapsto> ''a'']"
  by (simp add: BreadcrumbMap_def breadcrumbLoop.simps Let_def)

text \<open>
  Claim C3. For every path, the map that \<^verbatim>\<open>BreadcrumbMap\<close> builds in its loop is the map of
  the specification: at most one trailing separator stripped, the path split on the
  separator, the root entry \<open>/ \<mapsto> /\<close> emitted for an empty first segment and, for every
  other index, the joined segments \<open>0..i\<close> mapped to segment \<open>i\<close>. The path \<^verbatim>\<open>/a/b/c/\<close>
  gives exactly the keys \<^verbatim>\<open>/\<close>, \<^verbatim>\<open>/a\<close>, \<^verbatim>\<open>/a/b\<close>, \<^verbatim>\<open>/a/b/c\<close> with the values \<^verbatim>\<open>/\<close>, \<^verbatim>\<open>a\<close>,
  \<^verbatim>\<open>b\<close>, \<^verbatim>\<open>c\<close>, and the empty path gives the empty map.
\<close>

theorem BreadcrumbMap_spec:
  "BreadcrumbMap l = breadcrumb_spec (Path l) \<and>
   BreadcrumbMap (l\<lparr>Path := ''/a/b/c/''\<rparr>) =
     [''/'' \<mapsto> ''/'', ''/a'' \<mapsto> ''a'', ''/a/b'' \<mapsto> ''b'', ''/a/b/c'' \<mapsto> ''c''] \<and>
   dom (BreadcrumbMap (l\<lparr>Path := ''/a/b/c/''\<rparr>)) = {''/'', ''/a'', ''/a/b'', ''/a/b/c''} \<and>
   BreadcrumbMap (l\<lparr>Path := ''''\<rparr>) = Map.empty"
proof -
  have "BreadcrumbMap l = breadcrumb_spec (Path l)"
  proof (cases "Path l = []")
    case True
    then show ?thesis by (simp add: BreadcrumbMap_def breadcrumb_spec_def)
  next
    case False
    then show ?thesis
      by (simp add: BreadcrumbMap_def breadcrumb_spec_def Let_def breadcrumbLoop_entries
          last_conv_nth butlast_conv_take)
  qed
  moreover have "BreadcrumbMap (l\<lparr>Path := ''''\<rparr>) = Map.empty"
    by (simp add: BreadcrumbMap_def)
  ultimately show ?thesis
    by (auto simp add: BreadcrumbMap_example)
qed

theorem BreadcrumbMap_spec_witness:
  "BreadcrumbMap (sample_listing\<lparr>Path := ''/a/b/c/''\<rparr>) ''/a/b'' = Some ''b'' \<and>
   BreadcrumbMap (sample_listing\<lparr>Path := ''/a/b/c/''\<rparr>) ''/a/b/'' = None \<and>
   BreadcrumbMap (sample_listing\<lparr>Path := ''''\<rparr>) ''/'' = None"
  using BreadcrumbMap_spec [of sample_listing] by simp

end
